theory Spec2Isabelle
  imports Complex_Main "HOL-Library.Sublist"
begin

section \<open>Python values, exceptions and float arithmetic\<close>

text \<open>
  An ObjectId is represented by its canonical form, the 24-digit lower-case hexadecimal
  string that \<^verbatim>\<open>str(oid)\<close> prints; so \<^verbatim>\<open>str\<close> of an identifier is the identifier.
\<close>

type_synonym oid = string

text \<open>
  The values a MongoDB document of this application holds (\<^verbatim>\<open>Dict[str, Any]\<close>).
  The type \<open>'f\<close> stands for Python's \<^verbatim>\<open>float\<close>: double arithmetic is not defined
  here, it is a parameter (the record \<open>pyfloat\<close> below).
\<close>

datatype 'f pyval =
    PyNone
  | PyBool bool
  | PyInt int
  | PyFloat 'f
  | PyStr string
  | PyList "'f pyval list"

type_synonym 'f pydict = "(string \<times> 'f pyval) list"

text \<open>\<^verbatim>\<open>d.get(k, default)\<close>; \<^verbatim>\<open>d.get(k)\<close> is \<open>dict_get d k PyNone\<close>.\<close>

definition dict_get :: "'f pydict \<Rightarrow> string \<Rightarrow> 'f pyval \<Rightarrow> 'f pyval" where
  "dict_get d k dflt = (case map_of d k of None \<Rightarrow> dflt | Some v \<Rightarrow> v)"

text \<open>A stored document: the \<^verbatim>\<open>_id\<close> the server assigned, and the other fields.\<close>

record 'f document =
  doc_id :: oid
  doc_fields :: "'f pydict"

text \<open>The operations the handlers issue against the database.\<close>

datatype db_op = CountDocuments | InsertMany | Find | FindOne | InsertOne

text \<open>
  Every exception of the handlers. \<open>HTTPException\<close> carries the status code and the detail;
  \<open>RequestValidationError\<close> is FastAPI's rejection (status 422) of a body that does not fit
  the request schema; every other exception is not caught by any handler, so the framework
  answers 500.
\<close>

datatype error =
    HTTPException nat string
  | RequestValidationError string
  | ValidationError string
  | InvalidId string
  | TypeError
  | ValueError
  | OverflowError
  | PyMongoError string
  | OperationFailure string

fun status_code :: "error \<Rightarrow> nat" where
  "status_code (HTTPException code detail) = code"
| "status_code (RequestValidationError loc) = 422"
| "status_code e = 500"

text \<open>
  Float arithmetic, as far as the handlers use it:
  \<open>fl_lit m k\<close> is the literal \<open>m \<cdot> 10\<^sup>-\<^sup>k\<close> (\<^verbatim>\<open>0.0\<close> is \<open>fl_lit 0 1\<close>, \<^verbatim>\<open>4.7\<close> is \<open>fl_lit 47 1\<close>);
  \<open>fl_of_int\<close> is \<^verbatim>\<open>float(i)\<close>, \<open>None\<close> where Python raises OverflowError;
  \<open>fl_of_str\<close> is \<^verbatim>\<open>float(s)\<close>, \<open>None\<close> where Python raises ValueError;
  \<open>fl_round2\<close> is \<^verbatim>\<open>round(x, 2)\<close>; \<open>fl_ge0\<close> is \<^verbatim>\<open>x >= 0\<close>.
\<close>

record 'f pyfloat =
  fl_lit :: "int \<Rightarrow> nat \<Rightarrow> 'f"
  fl_of_int :: "int \<Rightarrow> 'f option"
  fl_of_str :: "string \<Rightarrow> 'f option"
  fl_add :: "'f \<Rightarrow> 'f \<Rightarrow> 'f"
  fl_mul :: "'f \<Rightarrow> 'f \<Rightarrow> 'f"
  fl_round2 :: "'f \<Rightarrow> 'f"
  fl_ge0 :: "'f \<Rightarrow> bool"

text \<open>\<^verbatim>\<open>float(v)\<close> for a stored value \<open>v\<close>.\<close>

fun py_float :: "'f pyfloat \<Rightarrow> 'f pyval \<Rightarrow> error + 'f" where
  "py_float fl (PyFloat x) = Inr x"
| "py_float fl (PyInt i) = (case fl_of_int fl i of None \<Rightarrow> Inl OverflowError | Some x \<Rightarrow> Inr x)"
| "py_float fl (PyBool b) =
     (case fl_of_int fl (if b then 1 else 0) of None \<Rightarrow> Inl OverflowError | Some x \<Rightarrow> Inr x)"
| "py_float fl (PyStr s) = (case fl_of_str fl s of None \<Rightarrow> Inl ValueError | Some x \<Rightarrow> Inr x)"
| "py_float fl PyNone = Inl TypeError"
| "py_float fl (PyList vs) = Inl TypeError"

text \<open>\<^verbatim>\<open>x * n\<close> for a float \<open>x\<close> and an int \<open>n\<close>: the int is converted to a float first.\<close>

definition py_mul_int :: "'f pyfloat \<Rightarrow> 'f \<Rightarrow> int \<Rightarrow> error + 'f" where
  "py_mul_int fl x n =
     (case fl_of_int fl n of None \<Rightarrow> Inl OverflowError | Some y \<Rightarrow> Inr (fl_mul fl x y))"

section \<open>Object identifiers\<close>

definition is_hex :: "char \<Rightarrow> bool" where
  "is_hex c = (c \<in> set ''0123456789abcdefABCDEF'')"

text \<open>ASCII lower case.\<close>

definition lower :: "char \<Rightarrow> char" where
  "lower c =
     (case map_of (zip ''ABCDEFGHIJKLMNOPQRSTUVWXYZ'' ''abcdefghijklmnopqrstuvwxyz'') c of
        None \<Rightarrow> c | Some l \<Rightarrow> l)"

text \<open>
  \<^verbatim>\<open>bson.ObjectId(s)\<close> for a string \<open>s\<close>: a string of 24 hexadecimal digits is an
  identifier, anything else raises \<^verbatim>\<open>bson.errors.InvalidId\<close>.
\<close>

definition ObjectId :: "string \<Rightarrow> error + oid" where
  "ObjectId s =
     (if length s = 24 \<and> list_all is_hex s then Inr (map lower s) else Inl (InvalidId s))"

text \<open>The identifier the server assigns to the \<open>n\<close>-th document it stores.\<close>

definition hex_digit :: "nat \<Rightarrow> char" where
  "hex_digit n = ''0123456789abcdef'' ! (n mod 16)"

fun hex_of :: "nat \<Rightarrow> nat \<Rightarrow> string" where
  "hex_of 0 n = []"
| "hex_of (Suc w) n = hex_of w (n div 16) @ [hex_digit n]"

definition mint :: "nat \<Rightarrow> oid" where
  "mint n = hex_of 24 n"

section \<open>schemas.py\<close>

record 'f OrderItem =
  oi_product_id :: string
  oi_name :: string
  oi_price :: 'f
  oi_quantity :: int

record 'f Order =
  ord_customer_name :: "string option"
  ord_customer_phone :: "string option"
  ord_customer_address :: "string option"
  ord_items :: "'f OrderItem list"
  ord_subtotal :: 'f
  ord_notes :: "string option"

text \<open>
  The constructors validate their arguments: \<open>name\<close> must be a string,
  \<open>price\<close> is \<open>ge=0\<close>, \<open>quantity\<close> is \<open>ge=1\<close>, \<open>subtotal\<close> is \<open>ge=0\<close>.
  \<open>main.py\<close> imports them as \<open>OrderItemSchema\<close> and \<open>OrderSchema\<close>.
\<close>

definition OrderItemSchema ::
  "'f pyfloat \<Rightarrow> string \<Rightarrow> 'f pyval \<Rightarrow> 'f \<Rightarrow> int \<Rightarrow> error + 'f OrderItem" where
  "OrderItemSchema fl pid nm pr qty =
     (case nm of
        PyStr n \<Rightarrow>
          (if fl_ge0 fl pr \<and> 1 \<le> qty
           then Inr \<lparr>oi_product_id = pid, oi_name = n, oi_price = pr, oi_quantity = qty\<rparr>
           else Inl (ValidationError ''OrderItem''))
      | _ \<Rightarrow> Inl (ValidationError ''OrderItem''))"

definition OrderSchema ::
  "'f pyfloat \<Rightarrow> string option \<Rightarrow> string option \<Rightarrow> string option \<Rightarrow> 'f OrderItem list \<Rightarrow> 'f
     \<Rightarrow> string option \<Rightarrow> error + 'f Order" where
  "OrderSchema fl cname cphone caddress its sub nts =
     (if fl_ge0 fl sub
      then Inr \<lparr>ord_customer_name = cname, ord_customer_phone = cphone,
                ord_customer_address = caddress, ord_items = its, ord_subtotal = sub,
                ord_notes = nts\<rparr>
      else Inl (ValidationError ''Order''))"

section \<open>The database\<close>

text \<open>
  The state behind the module-level handle \<^verbatim>\<open>db\<close>: the two collections, the number of
  identifiers assigned so far, the operations that currently fail (with the text of the
  driver's exception), and the log of the operations issued. The handle itself is a
  \<open>database option\<close>: \<open>None\<close> when no database is configured.
\<close>

record 'f database =
  product :: "'f document list"
  orders :: "(oid \<times> 'f Order) list"
  minted :: nat
  fault :: "db_op \<Rightarrow> string option"
  oplog :: "db_op list"

definition db_call :: "db_op \<Rightarrow> 'f database \<Rightarrow> 'f database" where
  "db_call op d = d\<lparr>oplog := oplog d @ [op]\<rparr>"

text \<open>
  \<^verbatim>\<open>db["product"].count_documents({})\<close>. Subscripting the handle \<^verbatim>\<open>None\<close> raises TypeError.
\<close>

definition count_documents :: "'f database option \<Rightarrow> (error + nat) \<times> 'f database option" where
  "count_documents db =
     (case db of
        None \<Rightarrow> (Inl TypeError, None)
      | Some d \<Rightarrow>
          (case fault d CountDocuments of
             Some msg \<Rightarrow> (Inl (PyMongoError msg), Some (db_call CountDocuments d))
           | None \<Rightarrow> (Inr (length (product d)), Some (db_call CountDocuments d))))"

text \<open>\<^verbatim>\<open>db["product"].insert_many(docs)\<close>: each document gets a fresh identifier.\<close>

definition stored :: "nat \<Rightarrow> 'f pydict list \<Rightarrow> 'f document list" where
  "stored n docs =
     map (\<lambda>(i, fs). \<lparr>doc_id = mint i, doc_fields = fs\<rparr>) (zip [n ..< n + length docs] docs)"

definition insert_many ::
  "'f pydict list \<Rightarrow> 'f database option \<Rightarrow> (error + unit) \<times> 'f database option" where
  "insert_many docs db =
     (case db of
        None \<Rightarrow> (Inl TypeError, None)
      | Some d \<Rightarrow>
          (case fault d InsertMany of
             Some msg \<Rightarrow> (Inl (PyMongoError msg), Some (db_call InsertMany d))
           | None \<Rightarrow>
               (Inr (),
                Some (db_call InsertMany
                  (d\<lparr>product := product d @ stored (minted d) docs,
                     minted := minted d + length docs\<rparr>)))))"

text \<open>\<^verbatim>\<open>db["product"].find_one({"_id": oid})\<close>.\<close>

definition find_one ::
  "oid \<Rightarrow> 'f database option \<Rightarrow> (error + 'f document option) \<times> 'f database option" where
  "find_one i db =
     (case db of
        None \<Rightarrow> (Inl TypeError, None)
      | Some d \<Rightarrow>
          (case fault d FindOne of
             Some msg \<Rightarrow> (Inl (PyMongoError msg), Some (db_call FindOne d))
           | None \<Rightarrow> (Inr (find (\<lambda>doc. doc_id doc = i) (product d)), Some (db_call FindOne d))))"

text \<open>
  Modelled from the spec: \<open>create_document\<close> of \<open>database.py\<close>, which is not among the
  sources. Section 4.4: a single atomic insert of the full order document, which returns
  the identifier the store assigned, as a string, or fails with a storage error when the
  write fails. \<open>Inl msg\<close> is an exception whose text is \<open>msg\<close>.
\<close>

definition create_document ::
  "'f Order \<Rightarrow> 'f database option \<Rightarrow> (string + string) \<times> 'f database option" where
  "create_document doc db =
     (case db of
        None \<Rightarrow> (Inl ''Database not available'', None)
      | Some d \<Rightarrow>
          (case fault d InsertOne of
             Some msg \<Rightarrow> (Inl msg, Some (db_call InsertOne d))
           | None \<Rightarrow>
               (Inr (mint (minted d)),
                Some (db_call InsertOne
                  (d\<lparr>orders := orders d @ [(mint (minted d), doc)],
                     minted := Suc (minted d)\<rparr>)))))"

section \<open>Request schemas of main.py\<close>

record CreateOrderItem =
  line_product_id :: string
  line_quantity :: int

record CreateOrderRequest =
  req_customer_name :: "string option"
  req_customer_phone :: "string option"
  req_customer_address :: "string option"
  req_items :: "CreateOrderItem list"
  req_notes :: "string option"

text \<open>
  The request body as it arrives, and its validation against the request schemas:
  \<open>quantity: int = Field(..., ge=1)\<close>.
\<close>

record raw_order =
  raw_customer_name :: "string option"
  raw_customer_phone :: "string option"
  raw_customer_address :: "string option"
  raw_items :: "(string \<times> int) list"
  raw_notes :: "string option"

definition validate_CreateOrderItem :: "string \<times> int \<Rightarrow> error + CreateOrderItem" where
  "validate_CreateOrderItem it =
     (if 1 \<le> snd it then Inr \<lparr>line_product_id = fst it, line_quantity = snd it\<rparr>
      else Inl (RequestValidationError ''items.quantity''))"

fun validate_items :: "(string \<times> int) list \<Rightarrow> error + CreateOrderItem list" where
  "validate_items [] = Inr []"
| "validate_items (it # its) =
     (case validate_CreateOrderItem it of
        Inl e \<Rightarrow> Inl e
      | Inr l \<Rightarrow> (case validate_items its of Inl e \<Rightarrow> Inl e | Inr ls \<Rightarrow> Inr (l # ls)))"

definition validate_CreateOrderRequest :: "raw_order \<Rightarrow> error + CreateOrderRequest" where
  "validate_CreateOrderRequest r =
     (case validate_items (raw_items r) of
        Inl e \<Rightarrow> Inl e
      | Inr ls \<Rightarrow>
          Inr \<lparr>req_customer_name = raw_customer_name r,
               req_customer_phone = raw_customer_phone r,
               req_customer_address = raw_customer_address r,
               req_items = ls, req_notes = raw_notes r\<rparr>)"

section \<open>create_order\<close>

record order_response =
  message :: string
  order_id :: string

text \<open>Lines 182 to 184: the lookup of one line's product.\<close>

definition find_product ::
  "CreateOrderItem \<Rightarrow> 'f database option
     \<Rightarrow> (error + 'f document option) \<times> 'f database option" where
  "find_product line db =
     (case db of
        None \<Rightarrow> (Inr None, db)
      | Some d \<Rightarrow>
          (if line_product_id line \<noteq> []
           then (case ObjectId (line_product_id line) of
                   Inl e \<Rightarrow> (Inl e, db)
                 | Inr i \<Rightarrow> find_one i db)
           else (Inr None, db)))"

text \<open>The loop over \<^verbatim>\<open>payload.items\<close>, with \<^verbatim>\<open>order_items\<close> and \<^verbatim>\<open>subtotal\<close> as accumulators.\<close>

fun order_loop ::
  "'f pyfloat \<Rightarrow> CreateOrderItem list \<Rightarrow> 'f OrderItem list \<Rightarrow> 'f \<Rightarrow> 'f database option
     \<Rightarrow> (error + 'f OrderItem list \<times> 'f) \<times> 'f database option" where
  "order_loop fl [] order_items subtotal db = (Inr (order_items, subtotal), db)"
| "order_loop fl (line # rest) order_items subtotal db =
     (case find_product line db of
        (Inl e, db1) \<Rightarrow> (Inl e, db1)
      | (Inr None, db1) \<Rightarrow>
          (Inl (HTTPException 404 (''Product not found: '' @ line_product_id line)), db1)
      | (Inr (Some prd), db1) \<Rightarrow>
          (case py_float fl (dict_get (doc_fields prd) ''price'' (PyInt 0)) of
             Inl e \<Rightarrow> (Inl e, db1)
           | Inr price \<Rightarrow>
               (case py_mul_int fl price (line_quantity line) of
                  Inl e \<Rightarrow> (Inl e, db1)
                | Inr amount \<Rightarrow>
                    (case OrderItemSchema fl (doc_id prd)
                            (dict_get (doc_fields prd) ''name'' PyNone) price
                            (line_quantity line) of
                       Inl e \<Rightarrow> (Inl e, db1)
                     | Inr item \<Rightarrow>
                         order_loop fl rest (order_items @ [item])
                           (fl_add fl subtotal amount) db1))))"

definition create_order ::
  "'f pyfloat \<Rightarrow> CreateOrderRequest \<Rightarrow> 'f database option
     \<Rightarrow> (error + order_response) \<times> 'f database option" where
  "create_order fl payload db =
     (if req_items payload = []
      then (Inl (HTTPException 400 ''No items provided''), db)
      else
        (case order_loop fl (req_items payload) [] (fl_lit fl 0 1) db of
           (Inl e, db1) \<Rightarrow> (Inl e, db1)
         | (Inr (order_items, subtotal), db1) \<Rightarrow>
             (case OrderSchema fl (req_customer_name payload) (req_customer_phone payload)
                     (req_customer_address payload) order_items (fl_round2 fl subtotal)
                     (req_notes payload) of
                Inl e \<Rightarrow> (Inl e, db1)
              | Inr order_doc \<Rightarrow>
                  (case create_document order_doc db1 of
                     (Inl msg, db2) \<Rightarrow>
                       (Inl (HTTPException 500 (''Failed to create order: '' @ msg)), db2)
                   | (Inr oid, db2) \<Rightarrow>
                       (Inr \<lparr>message = ''Order created'', order_id = oid\<rparr>, db2)))))"

text \<open>
  The route \<^verbatim>\<open>POST /api/orders\<close>: the framework validates the body against
  \<open>CreateOrderRequest\<close> and calls the handler only with a valid payload.
\<close>

definition post_api_orders ::
  "'f pyfloat \<Rightarrow> raw_order \<Rightarrow> 'f database option
     \<Rightarrow> (error + order_response) \<times> 'f database option" where
  "post_api_orders fl body db =
     (case validate_CreateOrderRequest body of
        Inl e \<Rightarrow> (Inl e, db)
      | Inr payload \<Rightarrow> create_order fl payload db)"

section \<open>The catalog: seeding and listing\<close>

definition sample_products :: "'f pyfloat \<Rightarrow> 'f pydict list" where
  "sample_products fl =
     [[(''name'', PyStr ''Strawberry Bubble Tea''),
       (''description'', PyStr ''Refreshing strawberry milk tea with chewy tapioca pearls.''),
       (''price'', PyInt 18000),
       (''category'', PyStr ''Drinks''),
       (''image'', PyStr ''https://images.unsplash.com/photo-1613478223719-2ab802602423?q=80&w=1200&auto=format&fit=crop''),
       (''vendor'', PyStr ''Boba Bliss UMKM''),
       (''rating'', PyFloat (fl_lit fl 47 1)),
       (''tags'', PyList [PyStr ''boba'', PyStr ''strawberry'', PyStr ''sweet'']),
       (''in_stock'', PyBool True)],
      [(''name'', PyStr ''Classic Milk Tea''),
       (''description'', PyStr ''Smooth black tea with creamy milk and brown sugar pearls.''),
       (''price'', PyInt 16000),
       (''category'', PyStr ''Drinks''),
       (''image'', PyStr ''https://images.unsplash.com/photo-1592861956120-e524fc739696?q=80&w=1200&auto=format&fit=crop''),
       (''vendor'', PyStr ''Kopi & Teh Lokal''),
       (''rating'', PyFloat (fl_lit fl 46 1)),
       (''tags'', PyList [PyStr ''boba'', PyStr ''milk tea'']),
       (''in_stock'', PyBool True)],
      [(''name'', PyStr ''Spicy Chicken Skewers''),
       (''description'', PyStr ''Grilled chicken satay with homemade spicy sauce.''),
       (''price'', PyInt 22000),
       (''category'', PyStr ''Snacks''),
       (''image'', PyStr ''https://images.unsplash.com/photo-1666001085700-0610a7f0b11d?q=80&w=1200&auto=format&fit=crop''),
       (''vendor'', PyStr ''Satay UMKM''),
       (''rating'', PyFloat (fl_lit fl 44 1)),
       (''tags'', PyList [PyStr ''spicy'', PyStr ''protein'']),
       (''in_stock'', PyBool True)],
      [(''name'', PyStr ''Chocolate Banana Crepes''),
       (''description'', PyStr ''Soft crepes filled with banana and chocolate drizzle.''),
       (''price'', PyInt 15000),
       (''category'', PyStr ''Dessert''),
       (''image'', PyStr ''https://images.unsplash.com/photo-1541599188778-cdc73298e8f8?q=80&w=1200&auto=format&fit=crop''),
       (''vendor'', PyStr ''Manis Lokal''),
       (''rating'', PyFloat (fl_lit fl 48 1)),
       (''tags'', PyList [PyStr ''dessert'', PyStr ''sweet'']),
       (''in_stock'', PyBool True)]]"

definition seed_products_if_empty ::
  "'f pyfloat \<Rightarrow> 'f database option \<Rightarrow> (error + unit) \<times> 'f database option" where
  "seed_products_if_empty fl db =
     (case db of
        None \<Rightarrow> (Inr (), db)
      | Some d \<Rightarrow>
          (case count_documents db of
             (Inl e, db1) \<Rightarrow> (Inl e, db1)
           | (Inr count, db1) \<Rightarrow>
               (if count > 0 then (Inr (), db1)
                else (case insert_many (sample_products fl) db1 of
                        (Inl e, db2) \<Rightarrow> (Inl e, db2)
                      | (Inr u, db2) \<Rightarrow> (Inr (), db2)))))"

subsection \<open>The query of list_products\<close>

text \<open>
  \<^verbatim>\<open>{"$regex": q, "$options": "i"}\<close> hands \<open>q\<close> to the server as a regular expression.
  Here a pattern built from ordinary characters and the dot is given its meaning: an
  ordinary character stands for itself in either case, the dot for any character but the
  newline, and the pattern is searched anywhere in the text. For every other pattern the
  server's engine is the parameter \<open>pcre\<close>, which answers \<open>None\<close> for a pattern it rejects.
\<close>

definition regex_meta :: "char \<Rightarrow> bool" where
  "regex_meta c = (c \<in> set (CHR 0x5C # ''^$.|?*+()[]{}''))"

datatype atom = Lit char | AnyChar

definition compile_simple :: "string \<Rightarrow> atom list option" where
  "compile_simple q =
     (if list_all (\<lambda>c. c = CHR ''.'' \<or> \<not> regex_meta c) q
      then Some (map (\<lambda>c. if c = CHR ''.'' then AnyChar else Lit c) q)
      else None)"

fun atom_matches :: "atom \<Rightarrow> char \<Rightarrow> bool" where
  "atom_matches (Lit l) c = (lower l = lower c)"
| "atom_matches AnyChar c = (c \<noteq> CHR 0x0A)"

fun match_here :: "atom list \<Rightarrow> string \<Rightarrow> bool" where
  "match_here [] s = True"
| "match_here (a # as) [] = False"
| "match_here (a # as) (c # cs) = (atom_matches a c \<and> match_here as cs)"

fun search :: "atom list \<Rightarrow> string \<Rightarrow> bool" where
  "search p [] = match_here p []"
| "search p (c # cs) = (match_here p (c # cs) \<or> search p cs)"

definition regex_i :: "(string \<Rightarrow> (string \<Rightarrow> bool) option) \<Rightarrow> string \<Rightarrow> (string \<Rightarrow> bool) option" where
  "regex_i pcre q = (case compile_simple q of Some p \<Rightarrow> Some (search p) | None \<Rightarrow> pcre q)"

text \<open>
  How a filter matches a field: an equality matches a string equal to the value or an
  array that holds it; a regular expression matches a string it finds a match in, or an
  array with such a string. A missing field matches neither.
\<close>

fun eq_matches :: "string \<Rightarrow> 'f pyval \<Rightarrow> bool" where
  "eq_matches c (PyStr s) = (s = c)"
| "eq_matches c (PyList vs) = list_ex (\<lambda>v. case v of PyStr s \<Rightarrow> s = c | _ \<Rightarrow> False) vs"
| "eq_matches c v = False"

fun rx_matches :: "(string \<Rightarrow> bool) \<Rightarrow> 'f pyval \<Rightarrow> bool" where
  "rx_matches r (PyStr s) = r s"
| "rx_matches r (PyList vs) = list_ex (\<lambda>v. case v of PyStr s \<Rightarrow> r s | _ \<Rightarrow> False) vs"
| "rx_matches r v = False"

definition field_matches :: "('f pyval \<Rightarrow> bool) \<Rightarrow> string \<Rightarrow> 'f document \<Rightarrow> bool" where
  "field_matches m k doc = (case map_of (doc_fields doc) k of None \<Rightarrow> False | Some v \<Rightarrow> m v)"

text \<open>
  \<open>filter_dict\<close>: the optional \<open>category\<close> equality and the optional \<^verbatim>\<open>$or\<close> of the three
  regular-expression matches.
\<close>

definition doc_matches :: "string option \<Rightarrow> (string \<Rightarrow> bool) option \<Rightarrow> 'f document \<Rightarrow> bool" where
  "doc_matches cat rx doc =
     ((case cat of None \<Rightarrow> True | Some c \<Rightarrow> field_matches (eq_matches c) ''category'' doc)
      \<and> (case rx of
            None \<Rightarrow> True
          | Some r \<Rightarrow>
              field_matches (rx_matches r) ''name'' doc
              \<or> field_matches (rx_matches r) ''description'' doc
              \<or> field_matches (rx_matches r) ''tags'' doc))"

text \<open>\<^verbatim>\<open>db["product"].find(filter_dict)\<close>.\<close>

definition find_filter ::
  "(string \<Rightarrow> (string \<Rightarrow> bool) option) \<Rightarrow> string option \<Rightarrow> string option \<Rightarrow> 'f database option
     \<Rightarrow> (error + 'f document list) \<times> 'f database option" where
  "find_filter pcre cat q db =
     (case db of
        None \<Rightarrow> (Inl TypeError, None)
      | Some d \<Rightarrow>
          (case fault d Find of
             Some msg \<Rightarrow> (Inl (PyMongoError msg), Some (db_call Find d))
           | None \<Rightarrow>
               (case q of
                  None \<Rightarrow> (Inr (filter (doc_matches cat None) (product d)), Some (db_call Find d))
                | Some pat \<Rightarrow>
                    (case regex_i pcre pat of
                       None \<Rightarrow> (Inl (OperationFailure pat), Some (db_call Find d))
                     | Some r \<Rightarrow>
                         (Inr (filter (doc_matches cat (Some r)) (product d)),
                          Some (db_call Find d))))))"

text \<open>\<^verbatim>\<open>if category:\<close> and \<^verbatim>\<open>if q:\<close> hold for a string that is given and not empty.\<close>

fun truthy :: "string option \<Rightarrow> string option" where
  "truthy None = None"
| "truthy (Some []) = None"
| "truthy (Some s) = Some s"

definition fallback :: "'f pyfloat \<Rightarrow> 'f pydict list" where
  "fallback fl =
     [[(''name'', PyStr ''Sample Bubble Tea''), (''description'', PyStr ''Example product''),
       (''price'', PyInt 15000), (''category'', PyStr ''Drinks''), (''image'', PyNone),
       (''vendor'', PyStr ''UMKM Sample''), (''rating'', PyFloat (fl_lit fl 45 1)),
       (''tags'', PyList [PyStr ''sample'']), (''in_stock'', PyBool True)]]"

text \<open>An item of the answer: the document with its \<^verbatim>\<open>_id\<close> as a string.\<close>

definition serialize :: "'f document \<Rightarrow> 'f pydict" where
  "serialize doc = (''_id'', PyStr (doc_id doc)) # doc_fields doc"

definition list_products ::
  "(string \<Rightarrow> (string \<Rightarrow> bool) option) \<Rightarrow> 'f pyfloat \<Rightarrow> string option \<Rightarrow> string option
     \<Rightarrow> 'f database option \<Rightarrow> (error + 'f pydict list) \<times> 'f database option" where
  "list_products pcre fl category q db =
     (case db of
        None \<Rightarrow> (Inr (fallback fl), db)
      | Some d \<Rightarrow>
          (case seed_products_if_empty fl db of
             (Inl e, db1) \<Rightarrow> (Inl e, db1)
           | (Inr u, db1) \<Rightarrow>
               (case find_filter pcre (truthy category) (truthy q) db1 of
                  (Inl e, db2) \<Rightarrow> (Inl e, db2)
                | (Inr items, db2) \<Rightarrow> (Inr (map serialize items), db2))))"

subsection \<open>The search as the specification words it\<close>

text \<open>
  \<open>q\<close> occurs in \<open>s\<close> as a substring, letter case ignored; and a document is a match when
  \<open>q\<close> so occurs in its name, or in its description, or in at least one of its tags.
\<close>

definition ci_substring :: "string \<Rightarrow> string \<Rightarrow> bool" where
  "ci_substring q s = sublist (map lower q) (map lower s)"

fun texts :: "'f pyval \<Rightarrow> string list" where
  "texts (PyStr s) = [s]"
| "texts (PyList vs) = concat (map (\<lambda>v. case v of PyStr s \<Rightarrow> [s] | _ \<Rightarrow> []) vs)"
| "texts v = []"

definition spec_field :: "string \<Rightarrow> string \<Rightarrow> 'f document \<Rightarrow> bool" where
  "spec_field q k doc =
     (case map_of (doc_fields doc) k of
        None \<Rightarrow> False
      | Some v \<Rightarrow> list_ex (ci_substring q) (texts v))"

definition spec_search :: "string \<Rightarrow> 'f document \<Rightarrow> bool" where
  "spec_search q doc =
     (spec_field q ''name'' doc \<or> spec_field q ''description'' doc \<or> spec_field q ''tags'' doc)"

section \<open>Words of the specification about orders\<close>

text \<open>
  The stored product a product_id refers to: the first document whose \<^verbatim>\<open>_id\<close> is the
  identifier the string denotes; none when the string is not an identifier or no document
  has it.
\<close>

definition resolve :: "'f document list \<Rightarrow> string \<Rightarrow> 'f document option" where
  "resolve docs pid =
     (case ObjectId pid of
        Inl e \<Rightarrow> None
      | Inr i \<Rightarrow> find (\<lambda>doc. doc_id doc = i) docs)"

text \<open>
  An order item is the snapshot of a product for a line: it carries the product's
  identifier, its name, its price as a float (0 when the document has no price) and the
  requested quantity.
\<close>

definition snapshot_of :: "'f pyfloat \<Rightarrow> 'f document \<Rightarrow> CreateOrderItem \<Rightarrow> 'f OrderItem \<Rightarrow> bool" where
  "snapshot_of fl prd line item =
     (oi_product_id item = doc_id prd
      \<and> dict_get (doc_fields prd) ''name'' PyNone = PyStr (oi_name item)
      \<and> py_float fl (dict_get (doc_fields prd) ''price'' (PyInt 0)) = Inr (oi_price item)
      \<and> oi_quantity item = line_quantity line)"

definition line_snapshot ::
  "'f pyfloat \<Rightarrow> 'f document list \<Rightarrow> CreateOrderItem \<Rightarrow> 'f OrderItem \<Rightarrow> bool" where
  "line_snapshot fl docs line item =
     (case resolve docs (line_product_id line) of
        None \<Rightarrow> False
      | Some prd \<Rightarrow> snapshot_of fl prd line item)"

text \<open>The amount of an item: its price times its quantity, in float arithmetic.\<close>

definition line_amount :: "'f pyfloat \<Rightarrow> 'f OrderItem \<Rightarrow> 'f \<Rightarrow> bool" where
  "line_amount fl item a = (py_mul_int fl (oi_price item) (oi_quantity item) = Inr a)"

text \<open>
  A line can be ordered from a catalog: its product_id resolves, the product's name is a
  string, its price converts to a float that is not negative, and the quantity is at least
  1 and converts to a float.
\<close>

definition orderable :: "'f pyfloat \<Rightarrow> 'f document list \<Rightarrow> CreateOrderItem \<Rightarrow> bool" where
  "orderable fl docs line =
     (case resolve docs (line_product_id line) of
        None \<Rightarrow> False
      | Some prd \<Rightarrow>
          (case dict_get (doc_fields prd) ''name'' PyNone of
             PyStr n \<Rightarrow>
               (case py_float fl (dict_get (doc_fields prd) ''price'' (PyInt 0)) of
                  Inl e \<Rightarrow> False
                | Inr p \<Rightarrow>
                    fl_ge0 fl p \<and> 1 \<le> line_quantity line
                    \<and> fl_of_int fl (line_quantity line) \<noteq> None)
           | _ \<Rightarrow> False))"

text \<open>
  The facts of double arithmetic that the subtotal's validation rests on: \<^verbatim>\<open>0.0 >= 0\<close>;
  the sum of two floats that are not negative is not negative, and so are the product of
  such a float with the float of an integer from 1 on and its rounding to two digits.
\<close>

definition nonneg_laws :: "'f pyfloat \<Rightarrow> bool" where
  "nonneg_laws fl =
     (fl_ge0 fl (fl_lit fl 0 1)
      \<and> (\<forall>x y. fl_ge0 fl x \<and> fl_ge0 fl y \<longrightarrow> fl_ge0 fl (fl_add fl x y))
      \<and> (\<forall>x n y. fl_ge0 fl x \<and> 1 \<le> n \<and> fl_of_int fl n = Some y \<longrightarrow> fl_ge0 fl (fl_mul fl x y))
      \<and> (\<forall>x. fl_ge0 fl x \<longrightarrow> fl_ge0 fl (fl_round2 fl x)))"

text \<open>
  The facts about zero that a price of 0.0 rests on: \<^verbatim>\<open>float(0)\<close> is \<^verbatim>\<open>0.0\<close>; \<^verbatim>\<open>0.0\<close>
  times the float of an integer from 1 on is \<^verbatim>\<open>0.0\<close>; \<^verbatim>\<open>0.0 + 0.0\<close> and \<^verbatim>\<open>round(0.0, 2)\<close>
  are \<^verbatim>\<open>0.0\<close>; \<^verbatim>\<open>0.0 >= 0\<close>.
\<close>

definition zero_laws :: "'f pyfloat \<Rightarrow> bool" where
  "zero_laws fl =
     (fl_of_int fl 0 = Some (fl_lit fl 0 1)
      \<and> (\<forall>n y. 1 \<le> n \<and> fl_of_int fl n = Some y \<longrightarrow> fl_mul fl (fl_lit fl 0 1) y = fl_lit fl 0 1)
      \<and> fl_add fl (fl_lit fl 0 1) (fl_lit fl 0 1) = fl_lit fl 0 1
      \<and> fl_round2 fl (fl_lit fl 0 1) = fl_lit fl 0 1
      \<and> fl_ge0 fl (fl_lit fl 0 1))"

text \<open>
  Nothing but product lookups happened between two states of the database handle: both
  collections, the identifier count and the faults are the same, and the log grew by
  \<open>FindOne\<close> entries only (so no write was issued).
\<close>

definition only_lookups :: "'f database option \<Rightarrow> 'f database option \<Rightarrow> bool" where
  "only_lookups db db' =
     (case db of
        None \<Rightarrow> db' = None
      | Some d \<Rightarrow> (\<exists>k. db' = Some (d\<lparr>oplog := oplog d @ replicate k FindOne\<rparr>)))"

section \<open>A float instance and databases for the examples\<close>

text \<open>
  Exact rational arithmetic, with \<^verbatim>\<open>round(x, 2)\<close> rounding halves to even. Doubles agree
  with it on the numbers of the examples below: integers of moderate size, their products
  and their sums.
\<close>

definition round_half_even :: "rat \<Rightarrow> int" where
  "round_half_even x =
     (let f = \<lfloor>x\<rfloor>; r = x - of_int f
      in if r < 1 / 2 then f else if 1 / 2 < r then f + 1 else if even f then f else f + 1)"

definition exact :: "rat pyfloat" where
  "exact =
     \<lparr>fl_lit = (\<lambda>m k. of_int m / 10 ^ k),
      fl_of_int = (\<lambda>i. Some (of_int i)),
      fl_of_str = (\<lambda>s. None),
      fl_add = (\<lambda>x y. x + y),
      fl_mul = (\<lambda>x y. x * y),
      fl_round2 = (\<lambda>x. of_int (round_half_even (x * 100)) / 100),
      fl_ge0 = (\<lambda>x. 0 \<le> x)\<rparr>"

text \<open>A configured database with nothing in it, and the same after seeding.\<close>

definition empty_db :: "rat database" where
  "empty_db = \<lparr>product = [], orders = [], minted = 0, fault = (\<lambda>op. None), oplog = []\<rparr>"

definition seeded_db :: "rat database" where
  "seeded_db =
     \<lparr>product = stored 0 (sample_products exact), orders = [], minted = 4,
      fault = (\<lambda>op. None), oplog = []\<rparr>"

text \<open>No pattern but the simple ones is accepted.\<close>

definition no_pcre :: "string \<Rightarrow> (string \<Rightarrow> bool) option" where
  "no_pcre q = None"

text \<open>The database whose server does not answer the count.\<close>

definition down_db :: "rat database" where
  "down_db =
     \<lparr>product = [], orders = [], minted = 0,
      fault = (\<lambda>op. if op = CountDocuments then Some ''connection refused'' else None),
      oplog = []\<rparr>"

text \<open>An order without customer data.\<close>

definition anonymous_order :: "CreateOrderItem list \<Rightarrow> CreateOrderRequest" where
  "anonymous_order ls =
     \<lparr>req_customer_name = None, req_customer_phone = None, req_customer_address = None,
      req_items = ls, req_notes = None\<rparr>"

definition anonymous_body :: "(string \<times> int) list \<Rightarrow> raw_order" where
  "anonymous_body ls =
     \<lparr>raw_customer_name = None, raw_customer_phone = None, raw_customer_address = None,
      raw_items = ls, raw_notes = None\<rparr>"

text \<open>The seeded database on a server that refuses the insert of an order.\<close>

definition full_disk_db :: "rat database" where
  "full_disk_db =
     \<lparr>product = stored 0 (sample_products exact), orders = [], minted = 4,
      fault = (\<lambda>op. if op = InsertOne then Some ''disk full'' else None), oplog = []\<rparr>"

text \<open>
  A catalog with documents that lack fields: one without a price, one without a name, one
  with neither.
\<close>

definition odd_db :: "rat database" where
  "odd_db =
     \<lparr>product =
        [\<lparr>doc_id = ''00000000000000000000000a'', doc_fields = [(''name'', PyStr ''Free Sample'')]\<rparr>,
         \<lparr>doc_id = ''00000000000000000000000b'', doc_fields = [(''price'', PyInt 5000)]\<rparr>,
         \<lparr>doc_id = ''00000000000000000000000c'', doc_fields = []\<rparr>],
      orders = [], minted = 13, fault = (\<lambda>op. None), oplog = []\<rparr>"

section \<open>Properties of order creation\<close>

text \<open>
  C4. An order request whose items list is empty fails with the HTTP error 400
  "No items provided", whatever the database handle is (configured or not, with any
  operation failing): the database is returned as it was, with no operation added to its
  log and no order stored.
\<close>

theorem create_order_empty_items:
  "create_order fl (payload\<lparr>req_items := []\<rparr>) db =
     (Inl (HTTPException 400 ''No items provided''), db)"
  by (simp add: create_order_def)

text \<open>
  C10. When the loop reaches a line whose product_id is the empty string, the lookup
  returns "no product" without touching the handle: the result is the HTTP error 404
  "Product not found: " (naming the empty reference) and the database is exactly as it was
  before the line, with no operation logged, for every handle and every state of the
  accumulators; in particular so does \<open>create_order\<close> when its first line has the empty
  product_id. Parsing the empty string would have raised \<open>InvalidId\<close>.
\<close>

theorem empty_product_id_not_found:
  assumes "line_product_id line = []"
  shows "find_product line db = (Inr None, db)
    \<and> order_loop fl (line # rest) order_items subtotal db =
        (Inl (HTTPException 404 ''Product not found: ''), db)
    \<and> create_order fl (payload\<lparr>req_items := line # rest\<rparr>) db =
        (Inl (HTTPException 404 ''Product not found: ''), db)
    \<and> status_code (HTTPException 404 ''Product not found: '') = 404
    \<and> ObjectId (line_product_id line) = Inl (InvalidId [])"
proof -
  have look: "find_product line db = (Inr None, db)"
    using assms by (cases db) (simp_all add: find_product_def)
  have loop: "order_loop fl (line # rest) its sub db =
      (Inl (HTTPException 404 ''Product not found: ''), db)" for its sub
    using look assms by simp
  have "create_order fl (payload\<lparr>req_items := line # rest\<rparr>) db =
      (Inl (HTTPException 404 ''Product not found: ''), db)"
    unfolding create_order_def using loop by simp
  moreover have "ObjectId (line_product_id line) = Inl (InvalidId [])"
    using assms by (simp add: ObjectId_def)
  ultimately show ?thesis using look loop by simp
qed

theorem empty_product_id_not_found_witness:
  "line_product_id \<lparr>line_product_id = [], line_quantity = 2\<rparr> = []
   \<and> create_order exact (anonymous_order [\<lparr>line_product_id = [], line_quantity = 2\<rparr>])
        (Some seeded_db) = (Inl (HTTPException 404 ''Product not found: ''), Some seeded_db)"
  using empty_product_id_not_found
    [where line = "\<lparr>line_product_id = [], line_quantity = 2\<rparr>" and rest = "[]"
       and payload = "anonymous_order []" and fl = exact and db = "Some seeded_db"]
  by (simp add: anonymous_order_def)

text \<open>
  C3. A product_id that is not empty and is not an ObjectId: with a configured database,
  \<open>ObjectId\<close> raises \<open>InvalidId\<close>, nothing catches it, and the request ends with that
  exception (status 500), not with the 404 of a missing product.
\<close>

theorem create_order_malformed_id:
  "ObjectId ''X'' = Inl (InvalidId ''X'')
   \<and> create_order fl (payload\<lparr>req_items := [\<lparr>line_product_id = ''X'', line_quantity = 1\<rparr>]\<rparr>)
        (Some d) = (Inl (InvalidId ''X''), Some d)
   \<and> status_code (InvalidId ''X'') = 500"
  by (simp add: create_order_def find_product_def ObjectId_def)

text \<open>
  C8. A line whose quantity is 0 or negative does not pass the request schema: the route
  answers with the validation error of status 422 and returns the database as it was (the
  handler is not called); a line of quantity 1 passes the schema.
\<close>

lemma validate_items_rejects:
  "it \<in> set its \<Longrightarrow> snd it \<le> 0 \<Longrightarrow> \<exists>loc. validate_items its = Inl (RequestValidationError loc)"
proof (induction its)
  case Nil
  then show ?case by simp
next
  case (Cons a its)
  show ?case
  proof (cases "1 \<le> snd a")
    case False
    then show ?thesis by (simp add: validate_CreateOrderItem_def)
  next
    case True
    with Cons.prems have "it \<in> set its" by auto
    with Cons.IH Cons.prems obtain loc where "validate_items its = Inl (RequestValidationError loc)"
      by blast
    with True show ?thesis by (simp add: validate_CreateOrderItem_def)
  qed
qed

theorem quantity_boundary:
  assumes "q \<le> 0" and "(pid, q) \<in> set (raw_items body)"
  shows "(\<exists>loc. validate_CreateOrderItem (pid, q) = Inl (RequestValidationError loc))
    \<and> (\<exists>loc. post_api_orders fl body db = (Inl (RequestValidationError loc), db)
          \<and> status_code (RequestValidationError loc) = 422)
    \<and> validate_CreateOrderItem (pid', 1) = Inr \<lparr>line_product_id = pid', line_quantity = 1\<rparr>"
proof -
  from validate_items_rejects [of "(pid, q)" "raw_items body"] assms
  obtain loc where "validate_items (raw_items body) = Inl (RequestValidationError loc)"
    by auto
  then have "post_api_orders fl body db = (Inl (RequestValidationError loc), db)"
    by (simp add: post_api_orders_def validate_CreateOrderRequest_def)
  moreover have "\<exists>loc. validate_CreateOrderItem (pid, q) = Inl (RequestValidationError loc)"
    using assms(1) by (simp add: validate_CreateOrderItem_def)
  ultimately show ?thesis by (simp add: validate_CreateOrderItem_def)
qed

theorem quantity_boundary_witness:
  "(0::int) \<le> 0
   \<and> (''000000000000000000000000'', 0) \<in>
        set (raw_items (anonymous_body [(''000000000000000000000000'', 0)]))
   \<and> (\<exists>loc. post_api_orders exact (anonymous_body [(''000000000000000000000000'', 0)])
          (Some seeded_db) = (Inl (RequestValidationError loc), Some seeded_db))"
  using quantity_boundary
    [where q = 0 and pid = "''000000000000000000000000''"
       and body = "anonymous_body [(''000000000000000000000000'', 0)]"
       and fl = exact and db = "Some seeded_db"]
  by (simp add: anonymous_body_def)

subsection \<open>The loop over the lines\<close>

lemma only_lookups_refl: "only_lookups db db"
proof (cases db)
  case None
  then show ?thesis by (simp add: only_lookups_def)
next
  case (Some d)
  have "d = d\<lparr>oplog := oplog d @ replicate 0 FindOne\<rparr>" by simp
  then show ?thesis unfolding only_lookups_def Some by (simp only: option.case) blast
qed

lemma only_lookups_trans:
  assumes "only_lookups db db1" and "only_lookups db1 db2"
  shows "only_lookups db db2"
proof (cases db)
  case None
  with assms show ?thesis by (simp add: only_lookups_def)
next
  case (Some d)
  with assms(1) obtain k where k: "db1 = Some (d\<lparr>oplog := oplog d @ replicate k FindOne\<rparr>)"
    by (auto simp: only_lookups_def)
  with assms(2) obtain j where
    "db2 = Some (d\<lparr>oplog := oplog d @ replicate k FindOne @ replicate j FindOne\<rparr>)"
    by (auto simp: only_lookups_def)
  then have "db2 = Some (d\<lparr>oplog := oplog d @ replicate (k + j) FindOne\<rparr>)"
    by (simp add: replicate_add)
  then show ?thesis unfolding only_lookups_def Some by (simp only: option.case) blast
qed

lemma only_lookups_call: "only_lookups (Some d) (Some (db_call FindOne d))"
proof -
  have "db_call FindOne d = d\<lparr>oplog := oplog d @ replicate 1 FindOne\<rparr>"
    by (simp add: db_call_def)
  then show ?thesis unfolding only_lookups_def by (simp only: option.case) blast
qed

lemma find_product_only_lookups:
  assumes "find_product line db = (r, db')"
  shows "only_lookups db db'"
proof (cases db)
  case None
  with assms show ?thesis by (simp add: find_product_def only_lookups_def)
next
  case (Some d)
  from assms Some have "db' = Some d \<or> db' = Some (db_call FindOne d)"
    by (auto simp: find_product_def find_one_def split: if_splits sum.splits option.splits)
  then show ?thesis
    using Some only_lookups_refl [of "Some d"] only_lookups_call [of d] by auto
qed

lemma order_loop_only_lookups:
  "order_loop fl lines order_items subtotal db = (r, db') \<Longrightarrow> only_lookups db db'"
proof (induction lines arbitrary: order_items subtotal db)
  case Nil
  then show ?case by (simp add: only_lookups_refl)
next
  case (Cons line rest)
  obtain r1 db1 where fp: "find_product line db = (r1, db1)" by (cases "find_product line db")
  then have step: "only_lookups db db1" by (rule find_product_only_lookups)
  have "db' = db1 \<or> (\<exists>its sub. order_loop fl rest its sub db1 = (r, db'))"
    using Cons.prems fp
    by (auto split: sum.splits option.splits)
  then show ?case
  proof
    assume "db' = db1"
    with step show ?thesis by simp
  next
    assume "\<exists>its sub. order_loop fl rest its sub db1 = (r, db')"
    then obtain its sub where "order_loop fl rest its sub db1 = (r, db')" by blast
    then have "only_lookups db1 db'" by (rule Cons.IH)
    with step show ?thesis by (rule only_lookups_trans)
  qed
qed

lemma resolve_SomeD:
  assumes "resolve docs pid = Some prd"
  shows "pid \<noteq> [] \<and> (\<exists>i. ObjectId pid = Inr i \<and> find (\<lambda>doc. doc_id doc = i) docs = Some prd)"
proof -
  from assms obtain i where i: "ObjectId pid = Inr i" "find (\<lambda>doc. doc_id doc = i) docs = Some prd"
    by (auto simp: resolve_def split: sum.splits)
  from i(1) have "length pid = 24" by (simp add: ObjectId_def split: if_splits)
  then have "pid \<noteq> []" by auto
  with i show ?thesis by blast
qed

lemma find_product_resolved:
  assumes "resolve (product d) (line_product_id line) = Some prd" and "fault d FindOne = None"
  shows "find_product line (Some d) = (Inr (Some prd), Some (db_call FindOne d))"
proof -
  from resolve_SomeD [OF assms(1)] obtain i where
    "line_product_id line \<noteq> []" "ObjectId (line_product_id line) = Inr i"
    "find (\<lambda>doc. doc_id doc = i) (product d) = Some prd"
    by blast
  with assms(2) show ?thesis by (simp add: find_product_def find_one_def)
qed

lemma order_loop_step:
  assumes ok: "orderable fl (product d) line" and nofault: "fault d FindOne = None"
  shows "\<exists>item a.
      line_snapshot fl (product d) line item \<and> line_amount fl item a
    \<and> fl_ge0 fl (oi_price item) \<and> 1 \<le> oi_quantity item
    \<and> (\<forall>rest its sub. order_loop fl (line # rest) its sub (Some d) =
          order_loop fl rest (its @ [item]) (fl_add fl sub a) (Some (db_call FindOne d)))"
proof -
  from ok obtain prd n p y where
    res: "resolve (product d) (line_product_id line) = Some prd"
    and nm: "dict_get (doc_fields prd) ''name'' PyNone = PyStr n"
    and pr: "py_float fl (dict_get (doc_fields prd) ''price'' (PyInt 0)) = Inr p"
    and ge: "fl_ge0 fl p" and q: "1 \<le> line_quantity line"
    and conv: "fl_of_int fl (line_quantity line) = Some y"
    by (auto simp: orderable_def split: option.splits pyval.splits sum.splits)
  define item where
    "item = \<lparr>oi_product_id = doc_id prd, oi_name = n, oi_price = p,
             oi_quantity = line_quantity line\<rparr>"
  have snap: "line_snapshot fl (product d) line item"
    using res nm pr by (simp add: line_snapshot_def snapshot_of_def item_def)
  have amt: "line_amount fl item (fl_mul fl p y)"
    using conv by (simp add: line_amount_def py_mul_int_def item_def)
  have look: "find_product line (Some d) = (Inr (Some prd), Some (db_call FindOne d))"
    using res nofault by (rule find_product_resolved)
  have loop: "order_loop fl (line # rest) its sub (Some d) =
      order_loop fl rest (its @ [item]) (fl_add fl sub (fl_mul fl p y))
        (Some (db_call FindOne d))" for rest its sub
    using look nm pr ge q conv
    by (simp add: py_mul_int_def OrderItemSchema_def item_def)
  have "fl_ge0 fl (oi_price item)" "1 \<le> oi_quantity item"
    using ge q by (simp_all add: item_def)
  with snap amt loop show ?thesis by blast
qed

lemma order_loop_orderable:
  assumes "list_all (orderable fl (product d)) lines" and "fault d FindOne = None"
  shows "\<exists>items amounts.
      order_loop fl lines its sub (Some d) =
        (Inr (its @ items, foldl (fl_add fl) sub amounts),
         Some (d\<lparr>oplog := oplog d @ replicate (length lines) FindOne\<rparr>))
    \<and> list_all2 (line_snapshot fl (product d)) lines items
    \<and> list_all2 (line_amount fl) items amounts
    \<and> list_all (\<lambda>item. fl_ge0 fl (oi_price item) \<and> 1 \<le> oi_quantity item) items"
  using assms
proof (induction lines arbitrary: its sub d)
  case Nil
  then show ?case by simp
next
  case (Cons line rest)
  from Cons.prems have ok: "orderable fl (product d) line"
    and oks: "list_all (orderable fl (product d)) rest" by simp_all
  from order_loop_step [OF ok Cons.prems(2)] obtain item a where
    snap: "line_snapshot fl (product d) line item" and amt: "line_amount fl item a"
    and ge: "fl_ge0 fl (oi_price item)" "1 \<le> oi_quantity item"
    and loop: "\<And>rest its sub. order_loop fl (line # rest) its sub (Some d) =
          order_loop fl rest (its @ [item]) (fl_add fl sub a) (Some (db_call FindOne d))"
    by blast
  let ?d1 = "db_call FindOne d"
  have same: "product ?d1 = product d" "fault ?d1 FindOne = None"
    using Cons.prems(2) by (simp_all add: db_call_def)
  from Cons.IH [of ?d1 "its @ [item]" "fl_add fl sub a"] oks same
  obtain items amounts where
    rec: "order_loop fl rest (its @ [item]) (fl_add fl sub a) (Some ?d1) =
        (Inr ((its @ [item]) @ items, foldl (fl_add fl) (fl_add fl sub a) amounts),
         Some (?d1\<lparr>oplog := oplog ?d1 @ replicate (length rest) FindOne\<rparr>))"
    and snaps: "list_all2 (line_snapshot fl (product d)) rest items"
    and amts: "list_all2 (line_amount fl) items amounts"
    and ges: "list_all (\<lambda>item. fl_ge0 fl (oi_price item) \<and> 1 \<le> oi_quantity item) items"
    by auto
  have log: "?d1\<lparr>oplog := oplog ?d1 @ replicate (length rest) FindOne\<rparr> =
      d\<lparr>oplog := oplog d @ replicate (length (line # rest)) FindOne\<rparr>"
    by (simp add: db_call_def)
  have "order_loop fl (line # rest) its sub (Some d) =
      (Inr (its @ (item # items), foldl (fl_add fl) sub (a # amounts)),
       Some (d\<lparr>oplog := oplog d @ replicate (length (line # rest)) FindOne\<rparr>))"
    using loop rec log by simp
  moreover have "list_all2 (line_snapshot fl (product d)) (line # rest) (item # items)"
    using snap snaps by simp
  moreover have "list_all2 (line_amount fl) (item # items) (a # amounts)"
    using amt amts by simp
  moreover have
    "list_all (\<lambda>item. fl_ge0 fl (oi_price item) \<and> 1 \<le> oi_quantity item) (item # items)"
    using ge ges by simp
  ultimately show ?case by blast
qed

lemma foldl_amounts_nonneg:
  assumes "nonneg_laws fl"
  shows "list_all2 (line_amount fl) items amounts \<Longrightarrow>
    list_all (\<lambda>item. fl_ge0 fl (oi_price item) \<and> 1 \<le> oi_quantity item) items \<Longrightarrow>
    fl_ge0 fl sub \<Longrightarrow> fl_ge0 fl (foldl (fl_add fl) sub amounts)"
proof (induction items amounts arbitrary: sub rule: list_all2_induct)
  case Nil
  then show ?case by simp
next
  case (Cons item items a amounts)
  from Cons.hyps(1) obtain y where
    "fl_of_int fl (oi_quantity item) = Some y" "a = fl_mul fl (oi_price item) y"
    by (auto simp: line_amount_def py_mul_int_def split: option.splits)
  moreover from Cons.prems have "fl_ge0 fl (oi_price item)" "1 \<le> oi_quantity item" by simp_all
  ultimately have "fl_ge0 fl a"
    using assms unfolding nonneg_laws_def by blast
  with Cons.prems(2) assms have "fl_ge0 fl (fl_add fl sub a)"
    unfolding nonneg_laws_def by blast
  moreover from Cons.prems have
    "list_all (\<lambda>item. fl_ge0 fl (oi_price item) \<and> 1 \<le> oi_quantity item) items" by simp
  ultimately have "fl_ge0 fl (foldl (fl_add fl) (fl_add fl sub a) amounts)"
    by (rule Cons.IH [rotated])
  then show ?case by simp
qed

subsection \<open>Orders whose lines all resolve\<close>

text \<open>
  C1, as the code has it. Take a request with at least one line, on a configured database
  whose lookups and whose insert of the order do not fail, in which every line can be
  ordered: its product_id is the identifier of a stored document that has a string name
  and a price that converts to a float that is not negative, and its quantity (at least 1)
  converts to a float. Then \<open>create_order\<close> answers "Order created" with the identifier the
  store assigned, and exactly one order was added to the order collection, after one
  lookup per line and one insert. Each of its items is the snapshot of the product its
  line refers to (identifier, name, price as a float, requested quantity), in the order of
  the lines; its subtotal is \<^verbatim>\<open>round(s, 2)\<close> where \<open>s\<close> is the float sum, accumulated from
  \<^verbatim>\<open>0.0\<close> in the order of the items, of price times quantity; the customer fields and the
  notes are those of the request. The product collection is as it was.
\<close>

theorem create_order_persists_snapshots:
  assumes nonempty: "req_items payload \<noteq> []"
    and ok: "list_all (orderable fl (product d)) (req_items payload)"
    and look: "fault d FindOne = None"
    and ins: "fault d InsertOne = None"
    and laws: "nonneg_laws fl"
  shows "\<exists>order amounts d'.
      create_order fl payload (Some d) =
        (Inr \<lparr>message = ''Order created'', order_id = mint (minted d)\<rparr>, Some d')
    \<and> orders d' = orders d @ [(mint (minted d), order)]
    \<and> product d' = product d
    \<and> oplog d' = oplog d @ replicate (length (req_items payload)) FindOne @ [InsertOne]
    \<and> list_all2 (line_snapshot fl (product d)) (req_items payload) (ord_items order)
    \<and> list_all2 (line_amount fl) (ord_items order) amounts
    \<and> ord_subtotal order = fl_round2 fl (foldl (fl_add fl) (fl_lit fl 0 1) amounts)
    \<and> ord_customer_name order = req_customer_name payload
    \<and> ord_customer_phone order = req_customer_phone payload
    \<and> ord_customer_address order = req_customer_address payload
    \<and> ord_notes order = req_notes payload"
proof -
  let ?zero = "fl_lit fl 0 1"
  let ?d2 = "d\<lparr>oplog := oplog d @ replicate (length (req_items payload)) FindOne\<rparr>"
  from order_loop_orderable [OF ok look, of "[]" ?zero] obtain items amounts where
    loop: "order_loop fl (req_items payload) [] ?zero (Some d) =
        (Inr (items, foldl (fl_add fl) ?zero amounts), Some ?d2)"
    and snaps: "list_all2 (line_snapshot fl (product d)) (req_items payload) items"
    and amts: "list_all2 (line_amount fl) items amounts"
    and ges: "list_all (\<lambda>item. fl_ge0 fl (oi_price item) \<and> 1 \<le> oi_quantity item) items"
    by auto
  let ?sub = "fl_round2 fl (foldl (fl_add fl) ?zero amounts)"
  have "fl_ge0 fl ?zero" using laws by (simp add: nonneg_laws_def)
  with laws amts ges have "fl_ge0 fl (foldl (fl_add fl) ?zero amounts)"
    by (rule foldl_amounts_nonneg)
  with laws have ge: "fl_ge0 fl ?sub" unfolding nonneg_laws_def by blast
  define order where
    "order = \<lparr>ord_customer_name = req_customer_name payload,
              ord_customer_phone = req_customer_phone payload,
              ord_customer_address = req_customer_address payload,
              ord_items = items, ord_subtotal = ?sub, ord_notes = req_notes payload\<rparr>"
  define d' where
    "d' = db_call InsertOne
       (?d2\<lparr>orders := orders ?d2 @ [(mint (minted ?d2), order)], minted := Suc (minted ?d2)\<rparr>)"
  have schema: "OrderSchema fl (req_customer_name payload) (req_customer_phone payload)
      (req_customer_address payload) items ?sub (req_notes payload) = Inr order"
    using ge by (simp add: OrderSchema_def order_def)
  have doc: "create_document order (Some ?d2) = (Inr (mint (minted d)), Some d')"
    using ins by (simp add: create_document_def d'_def)
  have res: "create_order fl payload (Some d) =
      (Inr \<lparr>message = ''Order created'', order_id = mint (minted d)\<rparr>, Some d')"
    unfolding create_order_def using nonempty loop schema doc by simp
  have st: "orders d' = orders d @ [(mint (minted d), order)]" "product d' = product d"
    "oplog d' = oplog d @ replicate (length (req_items payload)) FindOne @ [InsertOne]"
    by (simp_all add: d'_def db_call_def)
  have flds: "ord_items order = items" "ord_subtotal order = ?sub"
    "ord_customer_name order = req_customer_name payload"
    "ord_customer_phone order = req_customer_phone payload"
    "ord_customer_address order = req_customer_address payload"
    "ord_notes order = req_notes payload"
    by (simp_all add: order_def)
  show ?thesis
    using res st flds snaps amts by (intro exI [of _ order] exI [of _ amounts] exI [of _ d']) simp
qed

section \<open>Properties of the catalog seeder\<close>

lemma doc_fields_stored: "map doc_fields (stored n docs) = docs"
proof -
  have "map doc_fields (stored n docs) = map snd (zip [n ..< n + length docs] docs)"
    by (simp add: stored_def case_prod_unfold comp_def)
  then show ?thesis by simp
qed

lemma length_stored: "length (stored n docs) = length docs"
  by (simp add: stored_def)

lemma stored_samples_nonempty: "stored n (sample_products fl) \<noteq> []"
proof
  assume "stored n (sample_products fl) = []"
  then have "length (stored n (sample_products fl)) = 0" by simp
  then show False by (simp add: length_stored sample_products_def)
qed

lemma seed_on_empty:
  assumes "product d = []" and "fault d CountDocuments = None" and "fault d InsertMany = None"
  shows "seed_products_if_empty fl (Some d) =
    (Inr (),
     Some (db_call InsertMany
       ((db_call CountDocuments d)
          \<lparr>product := stored (minted d) (sample_products fl),
           minted := minted d + length (sample_products fl)\<rparr>)))"
  using assms
  by (simp add: seed_products_if_empty_def count_documents_def insert_many_def db_call_def)

lemma seed_on_nonempty:
  assumes "product d \<noteq> []"
  shows "snd (seed_products_if_empty fl (Some d)) = Some (db_call CountDocuments d)"
  using assms
  by (cases "fault d CountDocuments")
     (simp_all add: seed_products_if_empty_def count_documents_def)

lemma seed_on_nonempty_ok:
  assumes "product d \<noteq> []" and "fault d CountDocuments = None"
  shows "seed_products_if_empty fl (Some d) = (Inr (), Some (db_call CountDocuments d))"
  using assms by (simp add: seed_products_if_empty_def count_documents_def)

text \<open>
  C5. On a configured database whose product collection is empty and whose count and
  insert operations do not fail, two calls of the seeder in succession insert the four
  sample products once: the first call counts and inserts, the second only counts, and
  after both the product collection holds exactly the sample products, each once, in the
  order of the source. On any database that holds at least one product the seeder only
  counts: the collections are as they were.
\<close>

theorem seed_products_idempotent:
  assumes "product d = []" and "fault d CountDocuments = None" and "fault d InsertMany = None"
  shows "\<exists>d1 d2.
      seed_products_if_empty fl (Some d) = (Inr (), Some d1)
    \<and> seed_products_if_empty fl (Some d1) = (Inr (), Some d2)
    \<and> map doc_fields (product d1) = sample_products fl
    \<and> product d2 = product d1
    \<and> orders d2 = orders d
    \<and> oplog d2 = oplog d @ [CountDocuments, InsertMany, CountDocuments]
    \<and> (\<forall>e :: 'f database. product e \<noteq> [] \<longrightarrow>
          snd (seed_products_if_empty fl (Some e)) = Some (db_call CountDocuments e)
          \<and> product (db_call CountDocuments e) = product e
          \<and> orders (db_call CountDocuments e) = orders e)"
proof -
  define d1 where "d1 = db_call InsertMany
       ((db_call CountDocuments d)
          \<lparr>product := stored (minted d) (sample_products fl),
           minted := minted d + length (sample_products fl)\<rparr>)"
  have first: "seed_products_if_empty fl (Some d) = (Inr (), Some d1)"
    unfolding d1_def using assms by (rule seed_on_empty)
  have prod1: "product d1 = stored (minted d) (sample_products fl)"
    by (simp add: d1_def db_call_def)
  have "product d1 \<noteq> []"
    using prod1 stored_samples_nonempty by metis
  moreover have "fault d1 CountDocuments = None"
    using assms(2) by (simp add: d1_def db_call_def)
  ultimately have second:
    "seed_products_if_empty fl (Some d1) = (Inr (), Some (db_call CountDocuments d1))"
    by (rule seed_on_nonempty_ok)
  have fields: "map doc_fields (product d1) = sample_products fl"
    using prod1 by (simp add: doc_fields_stored)
  have log: "oplog (db_call CountDocuments d1) =
      oplog d @ [CountDocuments, InsertMany, CountDocuments]"
    by (simp add: d1_def db_call_def)
  have keep: "product (db_call CountDocuments d1) = product d1"
    "orders (db_call CountDocuments d1) = orders d"
    by (simp_all add: d1_def db_call_def)
  have other: "\<forall>e :: 'f database. product e \<noteq> [] \<longrightarrow>
          snd (seed_products_if_empty fl (Some e)) = Some (db_call CountDocuments e)
          \<and> product (db_call CountDocuments e) = product e
          \<and> orders (db_call CountDocuments e) = orders e"
    by (simp add: seed_on_nonempty db_call_def)
  from first second fields log keep other show ?thesis by blast
qed

theorem seed_products_idempotent_witness:
  "product empty_db = [] \<and> fault empty_db CountDocuments = None
   \<and> fault empty_db InsertMany = None
   \<and> (\<exists>d1 d2.
        seed_products_if_empty exact (Some empty_db) = (Inr (), Some d1)
      \<and> seed_products_if_empty exact (Some d1) = (Inr (), Some d2)
      \<and> map doc_fields (product d2) = sample_products exact
      \<and> oplog d2 = [CountDocuments, InsertMany, CountDocuments])"
proof -
  have h: "product empty_db = []" "fault empty_db CountDocuments = None"
    "fault empty_db InsertMany = None"
    by (simp_all add: empty_db_def)
  from seed_products_idempotent [OF h, of exact]
  obtain d1 d2 where
    "seed_products_if_empty exact (Some empty_db) = (Inr (), Some d1)"
    "seed_products_if_empty exact (Some d1) = (Inr (), Some d2)"
    "map doc_fields (product d1) = sample_products exact"
    "product d2 = product d1"
    "oplog d2 = oplog empty_db @ [CountDocuments, InsertMany, CountDocuments]"
    by blast
  moreover have "oplog empty_db = []" by (simp add: empty_db_def)
  ultimately show ?thesis using h by auto
qed

text \<open>
  C7, as the code has it. A storage error of the count, or of the insert into an empty
  collection, is not caught: the seeder raises it, and so does the listing that called the
  seeder, which ends with status 500; the product collection is as it was. The seeder
  returns silently, and the listing answers its built-in fallback item, only when no
  database is configured.
\<close>

theorem seeding_error_propagates:
  assumes "fault d CountDocuments = Some msg
     \<or> (product d = [] \<and> fault d CountDocuments = None \<and> fault d InsertMany = Some msg)"
  shows "\<exists>d'.
      seed_products_if_empty fl (Some d) = (Inl (PyMongoError msg), Some d')
    \<and> list_products pcre fl category q (Some d) = (Inl (PyMongoError msg), Some d')
    \<and> product d' = product d
    \<and> status_code (PyMongoError msg) = 500
    \<and> seed_products_if_empty fl None = (Inr (), None)
    \<and> list_products pcre fl category q None = (Inr (fallback fl), None)"
proof -
  have none: "seed_products_if_empty fl None = (Inr (), None)"
    "list_products pcre fl category q None = (Inr (fallback fl), None)"
    by (simp_all add: seed_products_if_empty_def list_products_def)
  from assms consider
      (count) "fault d CountDocuments = Some msg"
    | (ins) "product d = []" "fault d CountDocuments = None" "fault d InsertMany = Some msg"
    by auto
  then show ?thesis
  proof cases
    case count
    then have s: "seed_products_if_empty fl (Some d) =
        (Inl (PyMongoError msg), Some (db_call CountDocuments d))"
      by (simp add: seed_products_if_empty_def count_documents_def)
    then have "list_products pcre fl category q (Some d) =
        (Inl (PyMongoError msg), Some (db_call CountDocuments d))"
      by (simp add: list_products_def)
    moreover have "product (db_call CountDocuments d) = product d"
      by (simp add: db_call_def)
    ultimately show ?thesis using s none by auto
  next
    case ins
    then have s: "seed_products_if_empty fl (Some d) =
        (Inl (PyMongoError msg), Some (db_call InsertMany (db_call CountDocuments d)))"
      by (simp add: seed_products_if_empty_def count_documents_def insert_many_def db_call_def)
    then have "list_products pcre fl category q (Some d) =
        (Inl (PyMongoError msg), Some (db_call InsertMany (db_call CountDocuments d)))"
      by (simp add: list_products_def)
    moreover have "product (db_call InsertMany (db_call CountDocuments d)) = product d"
      by (simp add: db_call_def)
    ultimately show ?thesis using s none by auto
  qed
qed

theorem seeding_error_propagates_witness:
  "fault down_db CountDocuments = Some ''connection refused''
   \<and> (\<exists>d'. list_products no_pcre exact None None (Some down_db) =
          (Inl (PyMongoError ''connection refused''), Some d'))"
proof -
  have h: "fault down_db CountDocuments = Some ''connection refused''"
    by (simp add: down_db_def)
  from seeding_error_propagates [OF disjI1, OF h, of exact no_pcre None None]
  show ?thesis using h by blast
qed

text \<open>
  The claim C7 as the specification words it fails: with a server that does not answer
  the count, the seeder does not return and the listing does not answer a catalog.
\<close>

theorem seeding_error_not_swallowed:
  "fst (seed_products_if_empty exact (Some down_db)) = Inl (PyMongoError ''connection refused'')
   \<and> fst (list_products no_pcre exact None None (Some down_db)) =
       Inl (PyMongoError ''connection refused'')
   \<and> status_code (PyMongoError ''connection refused'') = 500"
  by (simp add: list_products_def seed_products_if_empty_def count_documents_def down_db_def)


end
